theory Spec2Isabelle
  imports Complex_Main
begin

section \<open>Engine values\<close>

text \<open>
  The character of ShootingGameCharacter.cpp lives inside a game engine. The engine's
  objects are referred to by pointers; a pointer is an optional object identity, with
  \<open>None\<close> for \<open>nullptr\<close>. A \<open>float\<close> is carried around, compared with zero and
  never computed with, so it is a finite value, an infinity or a NaN, and the two
  comparisons of the source are written out with the NaN cases. The engine's own
  singletons and components (\<open>GEngine\<close>, \<open>GetWorld()\<close>, \<open>GetMesh()\<close>, the root
  component) exist throughout, and a call into an external object does not call back
  into the character.
\<close>

type_synonym oid = nat

datatype float = Finite real | PosInf | NegInf | NaN

fun float_le :: "float \<Rightarrow> float \<Rightarrow> bool" where
  "float_le NaN b = False"
| "float_le a NaN = False"
| "float_le NegInf b = True"
| "float_le a PosInf = True"
| "float_le (Finite a) (Finite b) = (a \<le> b)"
| "float_le PosInf b = False"
| "float_le a NegInf = False"

fun float_neq :: "float \<Rightarrow> float \<Rightarrow> bool" where
  "float_neq NaN b = True"
| "float_neq a NaN = True"
| "float_neq (Finite a) (Finite b) = (a \<noteq> b)"
| "float_neq PosInf PosInf = False"
| "float_neq NegInf NegInf = False"
| "float_neq a b = True"

record FVector =
  X :: float
  Y :: float
  Z :: float

record FRotator =
  Pitch :: float
  Yaw :: float
  Roll :: float

section \<open>What the character does to the engine\<close>

text \<open>
  Every call that leaves the character (into the debug overlay, the equipped item, the
  player state, the mesh, the timer manager, the network layer, the base class) is an
  event; an operation returns the events it emitted, in order, with the new state of the
  character. The callees are not part of the two source files, so what they do in turn
  is not modelled: the event records that the call was made and with which arguments.
\<close>

datatype message =
    Msg_TakeDamage float string
  | Msg_OnUpdateHp float
  | Msg_PressTestKey
  | Msg_SetOwnerComplate string

datatype rpc =
    RPC_ReqPressTrigger | RPC_ResPressTrigger
  | RPC_ReqPressC | RPC_ResPressC
  | RPC_ReqPressReload | RPC_ResPressReload

datatype timer_handle = TH_SetOwnerWeapon | TH_BindPlayerState

datatype callback = CB_TestSetOwnerWeapon | CB_BindPlayerState

datatype axis = Axis_X | Axis_Y

datatype input_event = IE_Pressed | IE_Released

datatype handler =
    H_Jump | H_StopJumping | H_MoveForward | H_MoveRight
  | H_AddControllerYawInput | H_TurnAtRate | H_AddControllerPitchInput | H_LookUpAtRate
  | H_TouchStarted | H_TouchStopped | H_OnResetVR
  | H_PressTrigger | H_PressTestKey | H_PressReload

datatype event =
    AddOnScreenDebugMessage message
  | SendToServer rpc
  | Multicast rpc
  | Execute_IsCanUse oid
  | Execute_PressTrigger oid
  | Execute_PressReload oid
  | Execute_NotifyShoot oid
  | SetOwner oid oid
  | Assign_OwnChar oid
  | UpdateAmmoToHud oid
  | AddDamage oid float
  | AddUFunction oid string
  | SetSimulatePhysics bool
  | AttachToComponent_Root_KeepRelativeTransform
  | SetRelativeLocationAndRotation FVector FRotator
  | SetTimer timer_handle callback float bool
  | Super_BeginPlay
  | Super_Tick float
  | Super_GetLifetimeReplicatedProps
  | DOREPLIFETIME string
  | Jump
  | StopJumping
  | ResetOrientationAndPosition
  | AddControllerYawInput float float float
  | AddControllerPitchInput float float float
  | AddMovementInput axis float float
  | BindAction string input_event handler
  | BindAxis string handler
  | BindTouch input_event handler

text \<open>
  A pointer that is dereferenced while null, and the \<open>check\<close> macro on a null input
  component, end the operation; they are the two error values.
\<close>

datatype error = NullDereference | CheckFailed

type_synonym 'a result = "error + event list \<times> 'a"

definition ret :: "'a \<Rightarrow> 'a result" where
  "ret s = Inr ([], s)"

definition emit :: "event \<Rightarrow> 'a \<Rightarrow> 'a result" where
  "emit ev s = Inr ([ev], s)"

definition and_then :: "'a result \<Rightarrow> ('a \<Rightarrow> 'b result) \<Rightarrow> 'b result" where
  "and_then r f =
     (case r of
        Inl x \<Rightarrow> Inl x
      | Inr (evs, s) \<Rightarrow>
          (case f s of
             Inl x \<Rightarrow> Inl x
           | Inr (evs', s') \<Rightarrow> Inr (evs @ evs', s')))"

section \<open>What the engine tells the character\<close>

text \<open>
  The answers the character reads from the engine at the time of a call: its network
  role, its controller and player state, the dynamic class of the objects it casts, and
  what the equipped item and the player state answer. An operation takes the answers
  valid at the moment it runs; between two operations they may change in any way.
\<close>

record engine =
  HasAuthority :: bool
  GetControlRotation :: FRotator
  GetController :: "oid option"
  Controller_GetControlRotation :: "oid \<Rightarrow> FRotator"
  GetPlayerState :: "oid option"
  GetDeltaSeconds :: float
  IsPendingKill :: "oid \<Rightarrow> bool"
  GetName :: "oid \<Rightarrow> string"
  implements_IWeaponInterface :: "oid \<Rightarrow> bool"
  is_AWeapon :: "oid \<Rightarrow> bool"
  is_AShootingPlayerState :: "oid \<Rightarrow> bool"
  IsCanUse :: "oid \<Rightarrow> bool"
  GetCurHp :: "oid \<Rightarrow> float"
  GetMaxHp :: "oid \<Rightarrow> float"

text \<open>\<open>IsValid(p)\<close>: the pointer is not null and the object is not being destroyed.\<close>

definition IsValid :: "engine \<Rightarrow> oid option \<Rightarrow> bool" where
  "IsValid e p = (case p of None \<Rightarrow> False | Some x \<Rightarrow> \<not> IsPendingKill e x)"

text \<open>\<open>Cast<T>(p)\<close>: null for a null pointer and for an object that is not a \<open>T\<close>.\<close>

definition Cast_IWeaponInterface :: "engine \<Rightarrow> oid option \<Rightarrow> oid option" where
  "Cast_IWeaponInterface e p =
     (case p of
        None \<Rightarrow> None
      | Some x \<Rightarrow> if implements_IWeaponInterface e x then Some x else None)"

definition Cast_AWeapon :: "engine \<Rightarrow> oid option \<Rightarrow> oid option" where
  "Cast_AWeapon e p =
     (case p of None \<Rightarrow> None | Some x \<Rightarrow> if is_AWeapon e x then Some x else None)"

definition Cast_AShootingPlayerState :: "engine \<Rightarrow> oid option \<Rightarrow> oid option" where
  "Cast_AShootingPlayerState e p =
     (case p of
        None \<Rightarrow> None
      | Some x \<Rightarrow> if is_AShootingPlayerState e x then Some x else None)"

section \<open>The character\<close>

text \<open>
  The fields of \<open>AShootingGameCharacter\<close> that its member functions read or write. A
  timer handle holds the callback of the one-shot timer pending on it, if any.
\<close>

record character =
  BaseTurnRate :: float
  BaseLookUpRate :: float
  EquipWeapon :: "oid option"
  ControlPitch :: float
  IsRagdoll :: bool
  th_SetOwnerWeapon :: "callback option"
  th_BindPlayerState :: "callback option"

text \<open>
  The constructor sets the two rates and clears the ragdoll flag; the remaining fields
  keep the zero of a freshly allocated engine object. The configuration of the capsule,
  the movement component and the camera is the engine's and is left out.
\<close>

definition AShootingGameCharacter :: character where
  "AShootingGameCharacter =
     \<lparr> BaseTurnRate = Finite 45, BaseLookUpRate = Finite 45, EquipWeapon = None,
       ControlPitch = Finite 0, IsRagdoll = False,
       th_SetOwnerWeapon = None, th_BindPlayerState = None \<rparr>"

subsection \<open>Ragdoll\<close>

definition DoRagdoll :: "character \<Rightarrow> character result" where
  "DoRagdoll s = emit (SetSimulatePhysics True) (s\<lparr>IsRagdoll := True\<rparr>)"

definition DoGetup :: "character \<Rightarrow> character result" where
  "DoGetup s =
     and_then (emit (SetSimulatePhysics False) (s\<lparr>IsRagdoll := False\<rparr>)) (\<lambda>s.
     and_then (emit AttachToComponent_Root_KeepRelativeTransform s) (\<lambda>s.
     emit (SetRelativeLocationAndRotation
             \<lparr>X = Finite 0, Y = Finite 0, Z = Finite (- 97)\<rparr>
             \<lparr>Pitch = Finite 0, Yaw = Finite 270, Roll = Finite 0\<rparr>) s))"

definition OnUpdateHp_Implementation :: "float \<Rightarrow> float \<Rightarrow> character \<Rightarrow> character result" where
  "OnUpdateHp_Implementation CurrentHp MaxHp s =
     and_then (emit (AddOnScreenDebugMessage (Msg_OnUpdateHp CurrentHp)) s) (\<lambda>s.
     if float_le CurrentHp (Finite 0) then DoRagdoll s else ret s)"

text \<open>
  \<open>OnUpdateHp\<close> is a native event: with no override in a derived blueprint the call
  runs the implementation above.
\<close>

definition OnUpdateHp :: "float \<Rightarrow> float \<Rightarrow> character \<Rightarrow> character result" where
  "OnUpdateHp CurrentHp MaxHp s = OnUpdateHp_Implementation CurrentHp MaxHp s"

subsection \<open>Tick and damage\<close>

definition Tick :: "engine \<Rightarrow> float \<Rightarrow> character \<Rightarrow> character result" where
  "Tick e DeltaTime s =
     and_then (emit (Super_Tick DeltaTime) s) (\<lambda>s.
     if HasAuthority e = True
     then ret (s\<lparr>ControlPitch := Pitch (GetControlRotation e)\<rparr>)
     else ret s)"

text \<open>
  \<open>TakeDamage\<close> formats the name of the instigator into its debug message before
  anything else, so the instigator pointer is dereferenced first. The damage event and
  the damage causer are not used. The returned pair is the function's result and the
  character.
\<close>

definition TakeDamage ::
  "engine \<Rightarrow> float \<Rightarrow> oid option \<Rightarrow> oid option \<Rightarrow> character \<Rightarrow> (float \<times> character) result" where
  "TakeDamage e DamageAmount EventInstigator DamageCauser s =
     (case EventInstigator of
        None \<Rightarrow> Inl NullDereference
      | Some c \<Rightarrow>
          and_then (emit (AddOnScreenDebugMessage (Msg_TakeDamage DamageAmount (GetName e c))) s) (\<lambda>s.
          and_then (case Cast_AShootingPlayerState e (GetPlayerState e) of
                      Some ps \<Rightarrow> emit (AddDamage ps DamageAmount) s
                    | None \<Rightarrow> ret s) (\<lambda>s.
          ret (Finite 0, s))))"

subsection \<open>The equipped item\<close>

text \<open>
  \<open>TestSetOwnerWeapon\<close> attaches the equipped item to the controller once the controller
  is valid, and otherwise sets a one-shot timer of 0.1 seconds on its own handle to try
  again. \<open>EquipWeapon->SetOwner\<close> is called on the field as it is: a null field is
  dereferenced. The rate is the single-precision value of the literal \<open>0.1f\<close>.
\<close>

definition retry_delay :: float where
  "retry_delay = Finite (13421773 / 134217728)"

definition TestSetOwnerWeapon :: "engine \<Rightarrow> character \<Rightarrow> character result" where
  "TestSetOwnerWeapon e s =
     (if IsValid e (GetController e)
      then (case GetController e of
              None \<Rightarrow> Inl NullDereference
            | Some c \<Rightarrow>
                and_then (emit (AddOnScreenDebugMessage (Msg_SetOwnerComplate (GetName e c))) s) (\<lambda>s.
                (case EquipWeapon s of
                   None \<Rightarrow> Inl NullDereference
                 | Some w \<Rightarrow>
                     and_then (emit (SetOwner w c) s) (\<lambda>s.
                     (case Cast_AWeapon e (EquipWeapon s) of
                        Some weapon \<Rightarrow>
                          and_then (emit (Assign_OwnChar weapon) s) (\<lambda>s.
                          emit (UpdateAmmoToHud weapon) s)
                      | None \<Rightarrow> ret s)))))
      else and_then (emit (SetTimer TH_SetOwnerWeapon CB_TestSetOwnerWeapon retry_delay False) s) (\<lambda>s.
           ret (s\<lparr>th_SetOwnerWeapon := Some CB_TestSetOwnerWeapon\<rparr>)))"

definition SetEquipWeapon ::
  "engine \<Rightarrow> oid option \<Rightarrow> character \<Rightarrow> (oid option \<times> character) result" where
  "SetEquipWeapon e Weapon s =
     and_then (TestSetOwnerWeapon e (s\<lparr>EquipWeapon := Weapon\<rparr>)) (\<lambda>s.
     ret (EquipWeapon s, s))"

definition OnNotifyShoot :: "engine \<Rightarrow> character \<Rightarrow> character result" where
  "OnNotifyShoot e s =
     (case Cast_IWeaponInterface e (EquipWeapon s) of
        Some InterfaceObj \<Rightarrow> emit (Execute_NotifyShoot InterfaceObj) s
      | None \<Rightarrow> ret s)"

subsection \<open>Requests and responses\<close>

text \<open>
  The bodies of \<open>ReqPressTrigger()\<close>, \<open>ResPressTrigger()\<close> and the four other remote
  procedures are generated from the \<open>UFUNCTION(Server)\<close> and
  \<open>UFUNCTION(NetMulticast)\<close> declarations of the header. A server procedure called on
  the authority runs its implementation there, and called elsewhere is sent to the
  server. A multicast procedure runs its implementation on the caller, and on the
  authority is also broadcast to the other participants.
\<close>

definition ResPressTrigger_Implementation :: "engine \<Rightarrow> character \<Rightarrow> character result" where
  "ResPressTrigger_Implementation e s =
     (case Cast_IWeaponInterface e (EquipWeapon s) of
        Some InterfaceObj \<Rightarrow> emit (Execute_PressTrigger InterfaceObj) s
      | None \<Rightarrow> ret s)"

definition ResPressTrigger :: "engine \<Rightarrow> character \<Rightarrow> character result" where
  "ResPressTrigger e s =
     and_then (if HasAuthority e then emit (Multicast RPC_ResPressTrigger) s else ret s)
       (ResPressTrigger_Implementation e)"

text \<open>
  \<open>Execute_IsCanUse\<close> writes the item's answer into the local \<open>IsCanUse\<close>, which starts
  as false.
\<close>

definition ReqPressTrigger_Implementation :: "engine \<Rightarrow> character \<Rightarrow> character result" where
  "ReqPressTrigger_Implementation e s =
     (case Cast_IWeaponInterface e (EquipWeapon s) of
        Some InterfaceObj \<Rightarrow>
          and_then (emit (Execute_IsCanUse InterfaceObj) s) (\<lambda>s.
          if IsCanUse e InterfaceObj = False then ret s else ResPressTrigger e s)
      | None \<Rightarrow> ResPressTrigger e s)"

definition ReqPressTrigger :: "engine \<Rightarrow> character \<Rightarrow> character result" where
  "ReqPressTrigger e s =
     (if HasAuthority e then ReqPressTrigger_Implementation e s
      else emit (SendToServer RPC_ReqPressTrigger) s)"

definition ResPressC_Implementation :: "character \<Rightarrow> character result" where
  "ResPressC_Implementation s = (if IsRagdoll s then DoGetup s else DoRagdoll s)"

definition ResPressC :: "engine \<Rightarrow> character \<Rightarrow> character result" where
  "ResPressC e s =
     and_then (if HasAuthority e then emit (Multicast RPC_ResPressC) s else ret s)
       ResPressC_Implementation"

definition ReqPressC_Implementation :: "engine \<Rightarrow> character \<Rightarrow> character result" where
  "ReqPressC_Implementation e s = ResPressC e s"

definition ReqPressC :: "engine \<Rightarrow> character \<Rightarrow> character result" where
  "ReqPressC e s =
     (if HasAuthority e then ReqPressC_Implementation e s
      else emit (SendToServer RPC_ReqPressC) s)"

definition ResPressReload_Implementation :: "engine \<Rightarrow> character \<Rightarrow> character result" where
  "ResPressReload_Implementation e s =
     (case Cast_IWeaponInterface e (EquipWeapon s) of
        Some InterfaceObj \<Rightarrow> emit (Execute_PressReload InterfaceObj) s
      | None \<Rightarrow> ret s)"

definition ResPressReload :: "engine \<Rightarrow> character \<Rightarrow> character result" where
  "ResPressReload e s =
     and_then (if HasAuthority e then emit (Multicast RPC_ResPressReload) s else ret s)
       (ResPressReload_Implementation e)"

definition ReqPressReload_Implementation :: "engine \<Rightarrow> character \<Rightarrow> character result" where
  "ReqPressReload_Implementation e s = ResPressReload e s"

definition ReqPressReload :: "engine \<Rightarrow> character \<Rightarrow> character result" where
  "ReqPressReload e s =
     (if HasAuthority e then ReqPressReload_Implementation e s
      else emit (SendToServer RPC_ReqPressReload) s)"

subsection \<open>Input\<close>

definition PressTrigger :: "engine \<Rightarrow> character \<Rightarrow> character result" where
  "PressTrigger e s = ReqPressTrigger e s"

definition PressTestKey :: "engine \<Rightarrow> character \<Rightarrow> character result" where
  "PressTestKey e s =
     and_then (emit (AddOnScreenDebugMessage Msg_PressTestKey) s) (ReqPressC e)"

definition PressReload :: "engine \<Rightarrow> character \<Rightarrow> character result" where
  "PressReload e s = ReqPressReload e s"

definition OnResetVR :: "character \<Rightarrow> character result" where
  "OnResetVR s = emit ResetOrientationAndPosition s"

definition TouchStarted :: "character \<Rightarrow> character result" where
  "TouchStarted s = emit Jump s"

definition TouchStopped :: "character \<Rightarrow> character result" where
  "TouchStopped s = emit StopJumping s"

text \<open>
  The two rate inputs pass on the product of the rate, the base rate and the frame time;
  the event keeps the three factors. The two movement inputs pass on the unit axis of
  the controller's yaw rotation; the event keeps the axis, the yaw and the scale.
\<close>

definition TurnAtRate :: "engine \<Rightarrow> float \<Rightarrow> character \<Rightarrow> character result" where
  "TurnAtRate e Rate s = emit (AddControllerYawInput Rate (BaseTurnRate s) (GetDeltaSeconds e)) s"

definition LookUpAtRate :: "engine \<Rightarrow> float \<Rightarrow> character \<Rightarrow> character result" where
  "LookUpAtRate e Rate s =
     emit (AddControllerPitchInput Rate (BaseLookUpRate s) (GetDeltaSeconds e)) s"

definition MoveForward :: "engine \<Rightarrow> float \<Rightarrow> character \<Rightarrow> character result" where
  "MoveForward e Value s =
     (case GetController e of
        Some c \<Rightarrow>
          if float_neq Value (Finite 0)
          then emit (AddMovementInput Axis_X (Yaw (Controller_GetControlRotation e c)) Value) s
          else ret s
      | None \<Rightarrow> ret s)"

definition MoveRight :: "engine \<Rightarrow> float \<Rightarrow> character \<Rightarrow> character result" where
  "MoveRight e Value s =
     (case GetController e of
        Some c \<Rightarrow>
          if float_neq Value (Finite 0)
          then emit (AddMovementInput Axis_Y (Yaw (Controller_GetControlRotation e c)) Value) s
          else ret s
      | None \<Rightarrow> ret s)"

definition SetupPlayerInputComponent :: "oid option \<Rightarrow> character \<Rightarrow> character result" where
  "SetupPlayerInputComponent PlayerInputComponent s =
     (case PlayerInputComponent of
        None \<Rightarrow> Inl CheckFailed
      | Some c \<Rightarrow>
          Inr ([BindAction ''Jump'' IE_Pressed H_Jump,
                BindAction ''Jump'' IE_Released H_StopJumping,
                BindAxis ''MoveForward'' H_MoveForward,
                BindAxis ''MoveRight'' H_MoveRight,
                BindAxis ''Turn'' H_AddControllerYawInput,
                BindAxis ''TurnRate'' H_TurnAtRate,
                BindAxis ''LookUp'' H_AddControllerPitchInput,
                BindAxis ''LookUpRate'' H_LookUpAtRate,
                BindTouch IE_Pressed H_TouchStarted,
                BindTouch IE_Released H_TouchStopped,
                BindAction ''ResetVR'' IE_Pressed H_OnResetVR,
                BindAction ''Trigger'' IE_Pressed H_PressTrigger,
                BindAction ''TestKey'' IE_Pressed H_PressTestKey,
                BindAction ''Reload'' IE_Pressed H_PressReload], s))"

definition GetLifetimeReplicatedProps :: "character \<Rightarrow> character result" where
  "GetLifetimeReplicatedProps s =
     Inr ([Super_GetLifetimeReplicatedProps,
           DOREPLIFETIME ''ControlPitch'', DOREPLIFETIME ''EquipWeapon''], s)"

definition GetControlPitch :: "character \<Rightarrow> float" where
  "GetControlPitch s = ControlPitch s"

subsection \<open>Binding to the player state\<close>

definition BindPlayerState :: "engine \<Rightarrow> character \<Rightarrow> character result" where
  "BindPlayerState e s =
     (let ps = Cast_AShootingPlayerState e (GetPlayerState e) in
      if IsValid e ps
      then (case ps of
              None \<Rightarrow> Inl NullDereference
            | Some p \<Rightarrow>
                and_then (emit (AddUFunction p ''OnUpdateHp'') s)
                  (OnUpdateHp (GetCurHp e p) (GetMaxHp e p)))
      else and_then (emit (SetTimer TH_BindPlayerState CB_BindPlayerState retry_delay False) s) (\<lambda>s.
           ret (s\<lparr>th_BindPlayerState := Some CB_BindPlayerState\<rparr>)))"

definition BeginPlay :: "engine \<Rightarrow> character \<Rightarrow> character result" where
  "BeginPlay e s = and_then (emit Super_BeginPlay s) (BindPlayerState e)"

subsection \<open>The timer service\<close>

text \<open>
  Modelled from the spec: the Timer Service (the engine's timer manager, which is not
  in the source files) offers \<open>schedule(delay, callback)\<close>, one-shot. When the delay of
  the timer pending on a handle has passed, the handle is released and the callback runs
  once; a handle with no pending timer does nothing.
\<close>

definition run_callback :: "callback \<Rightarrow> engine \<Rightarrow> character \<Rightarrow> character result" where
  "run_callback cb e s =
     (case cb of
        CB_TestSetOwnerWeapon \<Rightarrow> TestSetOwnerWeapon e s
      | CB_BindPlayerState \<Rightarrow> BindPlayerState e s)"

definition timer_fires :: "timer_handle \<Rightarrow> engine \<Rightarrow> character \<Rightarrow> character result" where
  "timer_fires h e s =
     (case h of
        TH_SetOwnerWeapon \<Rightarrow>
          (case th_SetOwnerWeapon s of
             None \<Rightarrow> ret s
           | Some cb \<Rightarrow> run_callback cb e (s\<lparr>th_SetOwnerWeapon := None\<rparr>))
      | TH_BindPlayerState \<Rightarrow>
          (case th_BindPlayerState s of
             None \<Rightarrow> ret s
           | Some cb \<Rightarrow> run_callback cb e (s\<lparr>th_BindPlayerState := None\<rparr>)))"

section \<open>Operations and runs\<close>

text \<open>
  Every member function of the character, and the firing of a timer, as one operation;
  \<open>exec\<close> runs an operation and keeps the events and the character.
\<close>

datatype operation =
    Call_BeginPlay
  | Call_Tick float
  | Call_TakeDamage float "oid option" "oid option"
  | Call_GetLifetimeReplicatedProps
  | Call_SetupPlayerInputComponent "oid option"
  | Call_SetEquipWeapon "oid option"
  | Call_OnNotifyShoot
  | Call_OnUpdateHp float float
  | Call_DoRagdoll
  | Call_DoGetup
  | Call_ReqPressTrigger
  | Call_ReqPressTrigger_Implementation
  | Call_ResPressTrigger
  | Call_ResPressTrigger_Implementation
  | Call_ReqPressC
  | Call_ReqPressC_Implementation
  | Call_ResPressC
  | Call_ResPressC_Implementation
  | Call_ReqPressReload
  | Call_ReqPressReload_Implementation
  | Call_ResPressReload
  | Call_ResPressReload_Implementation
  | Call_OnResetVR
  | Call_TouchStarted
  | Call_TouchStopped
  | Call_PressTrigger
  | Call_PressTestKey
  | Call_PressReload
  | Call_TestSetOwnerWeapon
  | Call_BindPlayerState
  | Call_TurnAtRate float
  | Call_LookUpAtRate float
  | Call_MoveForward float
  | Call_MoveRight float
  | Timer_fires timer_handle

definition drop_value :: "('a \<times> 's) result \<Rightarrow> 's result" where
  "drop_value r = and_then r (\<lambda>(v, s). ret s)"

fun exec :: "operation \<Rightarrow> engine \<Rightarrow> character \<Rightarrow> character result" where
  "exec Call_BeginPlay e s = BeginPlay e s"
| "exec (Call_Tick DeltaTime) e s = Tick e DeltaTime s"
| "exec (Call_TakeDamage DamageAmount EventInstigator DamageCauser) e s =
     drop_value (TakeDamage e DamageAmount EventInstigator DamageCauser s)"
| "exec Call_GetLifetimeReplicatedProps e s = GetLifetimeReplicatedProps s"
| "exec (Call_SetupPlayerInputComponent c) e s = SetupPlayerInputComponent c s"
| "exec (Call_SetEquipWeapon Weapon) e s = drop_value (SetEquipWeapon e Weapon s)"
| "exec Call_OnNotifyShoot e s = OnNotifyShoot e s"
| "exec (Call_OnUpdateHp CurrentHp MaxHp) e s = OnUpdateHp CurrentHp MaxHp s"
| "exec Call_DoRagdoll e s = DoRagdoll s"
| "exec Call_DoGetup e s = DoGetup s"
| "exec Call_ReqPressTrigger e s = ReqPressTrigger e s"
| "exec Call_ReqPressTrigger_Implementation e s = ReqPressTrigger_Implementation e s"
| "exec Call_ResPressTrigger e s = ResPressTrigger e s"
| "exec Call_ResPressTrigger_Implementation e s = ResPressTrigger_Implementation e s"
| "exec Call_ReqPressC e s = ReqPressC e s"
| "exec Call_ReqPressC_Implementation e s = ReqPressC_Implementation e s"
| "exec Call_ResPressC e s = ResPressC e s"
| "exec Call_ResPressC_Implementation e s = ResPressC_Implementation s"
| "exec Call_ReqPressReload e s = ReqPressReload e s"
| "exec Call_ReqPressReload_Implementation e s = ReqPressReload_Implementation e s"
| "exec Call_ResPressReload e s = ResPressReload e s"
| "exec Call_ResPressReload_Implementation e s = ResPressReload_Implementation e s"
| "exec Call_OnResetVR e s = OnResetVR s"
| "exec Call_TouchStarted e s = TouchStarted s"
| "exec Call_TouchStopped e s = TouchStopped s"
| "exec Call_PressTrigger e s = PressTrigger e s"
| "exec Call_PressTestKey e s = PressTestKey e s"
| "exec Call_PressReload e s = PressReload e s"
| "exec Call_TestSetOwnerWeapon e s = TestSetOwnerWeapon e s"
| "exec Call_BindPlayerState e s = BindPlayerState e s"
| "exec (Call_TurnAtRate Rate) e s = TurnAtRate e Rate s"
| "exec (Call_LookUpAtRate Rate) e s = LookUpAtRate e Rate s"
| "exec (Call_MoveForward Value) e s = MoveForward e Value s"
| "exec (Call_MoveRight Value) e s = MoveRight e Value s"
| "exec (Timer_fires h) e s = timer_fires h e s"

text \<open>
  The operations that belong to the ToggleRagdoll action: the test key, the request and
  the response, as calls and as handlers.
\<close>

fun is_ToggleRagdoll :: "operation \<Rightarrow> bool" where
  "is_ToggleRagdoll Call_PressTestKey = True"
| "is_ToggleRagdoll Call_ReqPressC = True"
| "is_ToggleRagdoll Call_ReqPressC_Implementation = True"
| "is_ToggleRagdoll Call_ResPressC = True"
| "is_ToggleRagdoll Call_ResPressC_Implementation = True"
| "is_ToggleRagdoll other = False"

text \<open>
  \<open>run_each f es s\<close> runs \<open>f\<close> once per engine situation of \<open>es\<close>, in order, each
  time on the character the run before left, and returns the events of each run apart.
\<close>

fun run_each ::
  "(engine \<Rightarrow> 's \<Rightarrow> 's result) \<Rightarrow> engine list \<Rightarrow> 's \<Rightarrow> error + event list list \<times> 's" where
  "run_each f [] s = Inr ([], s)"
| "run_each f (e # es) s =
     (case f e s of
        Inl x \<Rightarrow> Inl x
      | Inr (evs, s') \<Rightarrow>
          (case run_each f es s' of
             Inl x \<Rightarrow> Inl x
           | Inr (evss, s'') \<Rightarrow> Inr (evs # evss, s'')))"

text \<open>
  A deferred binding is a first attempt followed by the timer service firing the
  binding's handle once per retry interval. \<open>deferred_binding first h es s\<close> makes the
  first attempt in the head of \<open>es\<close> and one firing in each later situation; the events
  of the checks are returned apart, the first attempt first.
\<close>

fun deferred_binding ::
  "(engine \<Rightarrow> character \<Rightarrow> character result) \<Rightarrow> timer_handle \<Rightarrow> engine list \<Rightarrow> character \<Rightarrow>
   error + event list list \<times> character" where
  "deferred_binding first h [] s = Inr ([], s)"
| "deferred_binding first h (e # es) s =
     (case first e s of
        Inl x \<Rightarrow> Inl x
      | Inr (evs, s') \<Rightarrow>
          (case run_each (timer_fires h) es s' of
             Inl x \<Rightarrow> Inl x
           | Inr (evss, s'') \<Rightarrow> Inr (evs # evss, s'')))"

text \<open>The two conditions the deferred bindings wait for.\<close>

definition controller_available :: "engine \<Rightarrow> bool" where
  "controller_available e = IsValid e (GetController e)"

definition player_state_available :: "engine \<Rightarrow> bool" where
  "player_state_available e = IsValid e (Cast_AShootingPlayerState e (GetPlayerState e))"

section \<open>Concrete situations\<close>

text \<open>
  A server on which object 1 is the controller, object 2 a shooting player state with
  100 of 100 hit points, object 3 a weapon that implements the weapon interface and can
  be used, object 4 a weapon that implements it and cannot, and object 5 an actor with
  neither class. \<open>nobody_home\<close> is the same server before the controller and the player
  state have arrived.
\<close>

definition server :: engine where
  "server =
     \<lparr> HasAuthority = True,
       GetControlRotation = \<lparr>Pitch = Finite 30, Yaw = Finite 90, Roll = Finite 0\<rparr>,
       GetController = Some 1,
       Controller_GetControlRotation = (\<lambda>c. \<lparr>Pitch = Finite 30, Yaw = Finite 90, Roll = Finite 0\<rparr>),
       GetPlayerState = Some 2,
       GetDeltaSeconds = Finite (1 / 64),
       IsPendingKill = (\<lambda>x. False),
       GetName = (\<lambda>x. if x = 1 then ''PlayerController_0'' else ''Actor''),
       implements_IWeaponInterface = (\<lambda>x. x = 3 \<or> x = 4),
       is_AWeapon = (\<lambda>x. x = 3 \<or> x = 4),
       is_AShootingPlayerState = (\<lambda>x. x = 2),
       IsCanUse = (\<lambda>x. x = 3),
       GetCurHp = (\<lambda>x. Finite 100),
       GetMaxHp = (\<lambda>x. Finite 100) \<rparr>"

definition nobody_home :: engine where
  "nobody_home = server\<lparr>GetController := None, GetPlayerState := None\<rparr>"

definition client :: engine where
  "client = server\<lparr>HasAuthority := False\<rparr>"

text \<open>
  \<open>jammed\<close> is the server at a moment when no item can be used, and \<open>defeated\<close> the
  server when the player state reports no hit points left. \<open>armed\<close> is the freshly
  constructed character holding object 3, and \<open>disarmed\<close> the one holding object 4.
\<close>

definition jammed :: engine where
  "jammed = server\<lparr>IsCanUse := (\<lambda>x. False)\<rparr>"

definition defeated :: engine where
  "defeated = server\<lparr>GetCurHp := (\<lambda>x. Finite 0)\<rparr>"

definition armed :: character where
  "armed = AShootingGameCharacter\<lparr>EquipWeapon := Some 3\<rparr>"

definition disarmed :: character where
  "disarmed = AShootingGameCharacter\<lparr>EquipWeapon := Some 4\<rparr>"

section \<open>Auxiliary facts\<close>

lemmas monad_defs = ret_def emit_def and_then_def

lemmas cast_defs =
  Cast_IWeaponInterface_def Cast_AWeapon_def Cast_AShootingPlayerState_def IsValid_def

lemmas op_defs =
  BeginPlay_def Tick_def TakeDamage_def GetLifetimeReplicatedProps_def
  SetupPlayerInputComponent_def SetEquipWeapon_def OnNotifyShoot_def OnUpdateHp_def
  OnUpdateHp_Implementation_def DoRagdoll_def DoGetup_def
  ReqPressTrigger_def ReqPressTrigger_Implementation_def ResPressTrigger_def
  ResPressTrigger_Implementation_def ReqPressC_def ReqPressC_Implementation_def
  ResPressC_def ResPressC_Implementation_def ReqPressReload_def
  ReqPressReload_Implementation_def ResPressReload_def ResPressReload_Implementation_def
  OnResetVR_def TouchStarted_def TouchStopped_def PressTrigger_def PressTestKey_def
  PressReload_def TestSetOwnerWeapon_def BindPlayerState_def TurnAtRate_def
  LookUpAtRate_def MoveForward_def MoveRight_def timer_fires_def run_callback_def
  drop_value_def

lemmas situation_defs =
  server_def nobody_home_def client_def jammed_def defeated_def armed_def disarmed_def
  AShootingGameCharacter_def

subsection \<open>Runs\<close>

lemma run_each_append:
  "run_each f (xs @ ys) s =
     (case run_each f xs s of
        Inl x \<Rightarrow> Inl x
      | Inr (evss, s') \<Rightarrow>
          (case run_each f ys s' of
             Inl x \<Rightarrow> Inl x
           | Inr (evss', s'') \<Rightarrow> Inr (evss @ evss', s'')))"
  by (induction xs arbitrary: s) (auto split: sum.splits prod.splits)

lemma run_each_fixed:
  assumes "\<And>e. e \<in> set es \<Longrightarrow> f e s = Inr (g e, s)"
  shows "run_each f es s = Inr (map g es, s)"
  using assms by (induction es) auto

subsection \<open>What an operation leaves alone\<close>

lemma BindPlayerState_frame:
  assumes "BindPlayerState e s = Inr (evs, s')"
  shows "ControlPitch s' = ControlPitch s \<and>
     (IsRagdoll s' \<noteq> IsRagdoll s \<longrightarrow>
        IsRagdoll s' \<and> SetSimulatePhysics True \<in> set evs \<and>
        (\<exists>p. Cast_AShootingPlayerState e (GetPlayerState e) = Some p \<and>
              float_le (GetCurHp e p) (Finite 0)))"
  using assms
  by (auto simp: BindPlayerState_def OnUpdateHp_def OnUpdateHp_Implementation_def DoRagdoll_def
      monad_defs Let_def split: if_splits option.splits)

lemma TestSetOwnerWeapon_frame:
  assumes "TestSetOwnerWeapon e s = Inr (evs, s')"
  shows "ControlPitch s' = ControlPitch s \<and> IsRagdoll s' = IsRagdoll s"
  using assms
  by (auto simp: TestSetOwnerWeapon_def monad_defs split: if_splits option.splits)

lemma run_callback_frame:
  assumes "run_callback cb e s = Inr (evs, s')"
  shows "ControlPitch s' = ControlPitch s \<and>
     (IsRagdoll s' \<noteq> IsRagdoll s \<longrightarrow>
        IsRagdoll s' \<and> SetSimulatePhysics True \<in> set evs \<and>
        (\<exists>p. Cast_AShootingPlayerState e (GetPlayerState e) = Some p \<and>
              float_le (GetCurHp e p) (Finite 0)))"
proof (cases cb)
  case CB_TestSetOwnerWeapon
  with assms TestSetOwnerWeapon_frame [of e s evs s'] show ?thesis
    by (auto simp: run_callback_def)
next
  case CB_BindPlayerState
  with assms BindPlayerState_frame [of e s evs s'] show ?thesis
    by (auto simp: run_callback_def)
qed

lemma timer_fires_frame:
  assumes "timer_fires h e s = Inr (evs, s')"
  shows "ControlPitch s' = ControlPitch s \<and>
     (IsRagdoll s' \<noteq> IsRagdoll s \<longrightarrow>
        IsRagdoll s' \<and> SetSimulatePhysics True \<in> set evs \<and>
        (\<exists>p. Cast_AShootingPlayerState e (GetPlayerState e) = Some p \<and>
              float_le (GetCurHp e p) (Finite 0)))"
proof (cases h)
  case TH_SetOwnerWeapon
  show ?thesis
  proof (cases "th_SetOwnerWeapon s")
    case None
    with TH_SetOwnerWeapon assms show ?thesis by (simp add: timer_fires_def ret_def)
  next
    case (Some cb)
    with TH_SetOwnerWeapon assms
    have "run_callback cb e (s\<lparr>th_SetOwnerWeapon := None\<rparr>) = Inr (evs, s')"
      by (simp add: timer_fires_def)
    from run_callback_frame [OF this] show ?thesis by auto
  qed
next
  case TH_BindPlayerState
  show ?thesis
  proof (cases "th_BindPlayerState s")
    case None
    with TH_BindPlayerState assms show ?thesis by (simp add: timer_fires_def ret_def)
  next
    case (Some cb)
    with TH_BindPlayerState assms
    have "run_callback cb e (s\<lparr>th_BindPlayerState := None\<rparr>) = Inr (evs, s')"
      by (simp add: timer_fires_def)
    from run_callback_frame [OF this] show ?thesis by auto
  qed
qed

subsection \<open>One check of a deferred binding\<close>

lemma BindPlayerState_retry:
  "\<not> player_state_available e \<Longrightarrow>
   BindPlayerState e s =
     Inr ([SetTimer TH_BindPlayerState CB_BindPlayerState retry_delay False],
          s\<lparr>th_BindPlayerState := Some CB_BindPlayerState\<rparr>)"
  by (simp add: BindPlayerState_def player_state_available_def monad_defs Let_def)

lemma BindPlayerState_bind:
  assumes "player_state_available e"
  shows "\<exists>p. Cast_AShootingPlayerState e (GetPlayerState e) = Some p \<and>
     BindPlayerState e s =
     Inr (AddUFunction p ''OnUpdateHp'' #
          AddOnScreenDebugMessage (Msg_OnUpdateHp (GetCurHp e p)) #
          (if float_le (GetCurHp e p) (Finite 0) then [SetSimulatePhysics True] else []),
          s\<lparr>IsRagdoll := (if float_le (GetCurHp e p) (Finite 0) then True else IsRagdoll s)\<rparr>)"
  using assms
  by (auto simp: BindPlayerState_def player_state_available_def IsValid_def OnUpdateHp_def
      OnUpdateHp_Implementation_def DoRagdoll_def monad_defs Let_def split: option.splits)

lemma TestSetOwnerWeapon_retry:
  "\<not> controller_available e \<Longrightarrow>
   TestSetOwnerWeapon e s =
     Inr ([SetTimer TH_SetOwnerWeapon CB_TestSetOwnerWeapon retry_delay False],
          s\<lparr>th_SetOwnerWeapon := Some CB_TestSetOwnerWeapon\<rparr>)"
  by (simp add: TestSetOwnerWeapon_def controller_available_def monad_defs)

lemma TestSetOwnerWeapon_bind:
  assumes "controller_available e" and "EquipWeapon s = Some w"
  shows "\<exists>c. GetController e = Some c \<and>
     TestSetOwnerWeapon e s =
     Inr (AddOnScreenDebugMessage (Msg_SetOwnerComplate (GetName e c)) #
          SetOwner w c #
          (if is_AWeapon e w then [Assign_OwnChar w, UpdateAmmoToHud w] else []), s)"
  using assms
  by (auto simp: TestSetOwnerWeapon_def controller_available_def IsValid_def Cast_AWeapon_def
      monad_defs split: option.splits)

lemma idle_timer:
  "th_BindPlayerState s = None \<Longrightarrow> timer_fires TH_BindPlayerState e s = Inr ([], s)"
  "th_SetOwnerWeapon s = None \<Longrightarrow> timer_fires TH_SetOwnerWeapon e s = Inr ([], s)"
  by (simp_all add: timer_fires_def ret_def)

lemma idle_run:
  "th_BindPlayerState s = None \<Longrightarrow>
   run_each (timer_fires TH_BindPlayerState) es s = Inr (replicate (length es) [], s)"
  "th_SetOwnerWeapon s = None \<Longrightarrow>
   run_each (timer_fires TH_SetOwnerWeapon) es s = Inr (replicate (length es) [], s)"
  by (simp_all add: run_each_fixed [where g = "\<lambda>e. []"] idle_timer map_replicate_const)

lemma retry_run_player_state:
  assumes "\<forall>e \<in> set us. \<not> player_state_available e"
    and "th_BindPlayerState t = Some CB_BindPlayerState"
  shows "run_each (timer_fires TH_BindPlayerState) us t =
     Inr (replicate (length us)
            [SetTimer TH_BindPlayerState CB_BindPlayerState retry_delay False], t)"
proof -
  have "timer_fires TH_BindPlayerState e t =
      Inr ([SetTimer TH_BindPlayerState CB_BindPlayerState retry_delay False], t)"
    if "e \<in> set us" for e
    using that assms
    by (simp add: timer_fires_def run_callback_def BindPlayerState_retry)
  then show ?thesis
    by (simp add: run_each_fixed
        [where g = "\<lambda>e. [SetTimer TH_BindPlayerState CB_BindPlayerState retry_delay False]"]
        map_replicate_const)
qed

lemma retry_run_controller:
  assumes "\<forall>e \<in> set us. \<not> controller_available e"
    and "th_SetOwnerWeapon t = Some CB_TestSetOwnerWeapon"
  shows "run_each (timer_fires TH_SetOwnerWeapon) us t =
     Inr (replicate (length us)
            [SetTimer TH_SetOwnerWeapon CB_TestSetOwnerWeapon retry_delay False], t)"
proof -
  have "timer_fires TH_SetOwnerWeapon e t =
      Inr ([SetTimer TH_SetOwnerWeapon CB_TestSetOwnerWeapon retry_delay False], t)"
    if "e \<in> set us" for e
    using that assms
    by (simp add: timer_fires_def run_callback_def TestSetOwnerWeapon_retry)
  then show ?thesis
    by (simp add: run_each_fixed
        [where g = "\<lambda>e. [SetTimer TH_SetOwnerWeapon CB_TestSetOwnerWeapon retry_delay False]"]
        map_replicate_const)
qed

lemma deferred_BindPlayerState:
  assumes fresh: "us = [] \<longrightarrow> th_BindPlayerState s = None"
    and un: "\<forall>e \<in> set us. \<not> player_state_available e"
    and av: "player_state_available a"
  shows "\<exists>p. Cast_AShootingPlayerState a (GetPlayerState a) = Some p \<and>
     deferred_binding BindPlayerState TH_BindPlayerState (us @ a # later) s =
     Inr (replicate (length us)
            [SetTimer TH_BindPlayerState CB_BindPlayerState retry_delay False] @
          [AddUFunction p ''OnUpdateHp'' #
           AddOnScreenDebugMessage (Msg_OnUpdateHp (GetCurHp a p)) #
           (if float_le (GetCurHp a p) (Finite 0) then [SetSimulatePhysics True] else [])] @
          replicate (length later) [],
          s\<lparr>IsRagdoll := (if float_le (GetCurHp a p) (Finite 0) then True else IsRagdoll s),
            th_BindPlayerState := None\<rparr>)"
proof (cases us)
  case Nil
  with fresh have idle: "th_BindPlayerState s = None"
    by simp
  from BindPlayerState_bind [OF av, of s] obtain p where
    p: "Cast_AShootingPlayerState a (GetPlayerState a) = Some p" and
    b: "BindPlayerState a s =
     Inr (AddUFunction p ''OnUpdateHp'' #
          AddOnScreenDebugMessage (Msg_OnUpdateHp (GetCurHp a p)) #
          (if float_le (GetCurHp a p) (Finite 0) then [SetSimulatePhysics True] else []),
          s\<lparr>IsRagdoll := (if float_le (GetCurHp a p) (Finite 0) then True else IsRagdoll s)\<rparr>)"
    by blast
  have same: "s\<lparr>IsRagdoll := r, th_BindPlayerState := None\<rparr> = s\<lparr>IsRagdoll := r\<rparr>" for r
    using idle by simp
  show ?thesis
    using Nil p b idle by (simp add: idle_run same)
next
  case (Cons u us')
  define t where "t = s\<lparr>th_BindPlayerState := Some CB_BindPlayerState\<rparr>"
  define s0 where "s0 = s\<lparr>th_BindPlayerState := None\<rparr>"
  have attempt: "BindPlayerState u s =
      Inr ([SetTimer TH_BindPlayerState CB_BindPlayerState retry_delay False], t)"
    using un Cons by (simp add: BindPlayerState_retry t_def)
  have retries: "run_each (timer_fires TH_BindPlayerState) us' t =
     Inr (replicate (length us')
            [SetTimer TH_BindPlayerState CB_BindPlayerState retry_delay False], t)"
    using un Cons by (intro retry_run_player_state) (simp_all add: t_def)
  have released: "t\<lparr>th_BindPlayerState := None\<rparr> = s0"
    by (simp add: t_def s0_def)
  from BindPlayerState_bind [OF av, of s0] obtain p where
    p: "Cast_AShootingPlayerState a (GetPlayerState a) = Some p" and
    b: "BindPlayerState a s0 =
     Inr (AddUFunction p ''OnUpdateHp'' #
          AddOnScreenDebugMessage (Msg_OnUpdateHp (GetCurHp a p)) #
          (if float_le (GetCurHp a p) (Finite 0) then [SetSimulatePhysics True] else []),
          s0\<lparr>IsRagdoll := (if float_le (GetCurHp a p) (Finite 0) then True else IsRagdoll s0)\<rparr>)"
    by blast
  have pending: "th_BindPlayerState t = Some CB_BindPlayerState"
    by (simp add: t_def)
  have final: "s0\<lparr>IsRagdoll := (if float_le (GetCurHp a p) (Finite 0) then True else IsRagdoll s0)\<rparr> =
      s\<lparr>IsRagdoll := (if float_le (GetCurHp a p) (Finite 0) then True else IsRagdoll s),
        th_BindPlayerState := None\<rparr>"
    by (simp add: s0_def)
  have fire: "timer_fires TH_BindPlayerState a t =
     Inr (AddUFunction p ''OnUpdateHp'' #
          AddOnScreenDebugMessage (Msg_OnUpdateHp (GetCurHp a p)) #
          (if float_le (GetCurHp a p) (Finite 0) then [SetSimulatePhysics True] else []),
          s\<lparr>IsRagdoll := (if float_le (GetCurHp a p) (Finite 0) then True else IsRagdoll s),
            th_BindPlayerState := None\<rparr>)"
    using b unfolding final by (simp add: timer_fires_def run_callback_def pending released)
  have idle: "th_BindPlayerState
      (s\<lparr>IsRagdoll := (if float_le (GetCurHp a p) (Finite 0) then True else IsRagdoll s),
         th_BindPlayerState := None\<rparr>) = None"
    by simp
  show ?thesis
    using Cons p attempt retries fire
    by (simp add: run_each_append idle_run(1) [OF idle] replicate_app_Cons_same)
qed

lemma deferred_TestSetOwnerWeapon:
  assumes fresh: "us = [] \<longrightarrow> th_SetOwnerWeapon s = None"
    and item: "EquipWeapon s = Some w"
    and un: "\<forall>e \<in> set us. \<not> controller_available e"
    and av: "controller_available a"
  shows "\<exists>c. GetController a = Some c \<and>
     deferred_binding TestSetOwnerWeapon TH_SetOwnerWeapon (us @ a # later) s =
     Inr (replicate (length us)
            [SetTimer TH_SetOwnerWeapon CB_TestSetOwnerWeapon retry_delay False] @
          [AddOnScreenDebugMessage (Msg_SetOwnerComplate (GetName a c)) #
           SetOwner w c #
           (if is_AWeapon a w then [Assign_OwnChar w, UpdateAmmoToHud w] else [])] @
          replicate (length later) [],
          s\<lparr>th_SetOwnerWeapon := None\<rparr>)"
proof (cases us)
  case Nil
  with fresh have idle: "th_SetOwnerWeapon s = None"
    by simp
  from TestSetOwnerWeapon_bind [OF av item] obtain c where
    c: "GetController a = Some c" and
    b: "TestSetOwnerWeapon a s =
     Inr (AddOnScreenDebugMessage (Msg_SetOwnerComplate (GetName a c)) #
          SetOwner w c #
          (if is_AWeapon a w then [Assign_OwnChar w, UpdateAmmoToHud w] else []), s)"
    by blast
  have same: "s\<lparr>th_SetOwnerWeapon := None\<rparr> = s"
    using idle by simp
  show ?thesis
    using Nil c b idle by (simp add: idle_run same)
next
  case (Cons u us')
  define t where "t = s\<lparr>th_SetOwnerWeapon := Some CB_TestSetOwnerWeapon\<rparr>"
  define s0 where "s0 = s\<lparr>th_SetOwnerWeapon := None\<rparr>"
  have attempt: "TestSetOwnerWeapon u s =
      Inr ([SetTimer TH_SetOwnerWeapon CB_TestSetOwnerWeapon retry_delay False], t)"
    using un Cons by (simp add: TestSetOwnerWeapon_retry t_def)
  have retries: "run_each (timer_fires TH_SetOwnerWeapon) us' t =
     Inr (replicate (length us')
            [SetTimer TH_SetOwnerWeapon CB_TestSetOwnerWeapon retry_delay False], t)"
    using un Cons by (intro retry_run_controller) (simp_all add: t_def)
  have released: "t\<lparr>th_SetOwnerWeapon := None\<rparr> = s0"
    by (simp add: t_def s0_def)
  have item0: "EquipWeapon s0 = Some w"
    using item by (simp add: s0_def)
  from TestSetOwnerWeapon_bind [OF av item0] obtain c where
    c: "GetController a = Some c" and
    b: "TestSetOwnerWeapon a s0 =
     Inr (AddOnScreenDebugMessage (Msg_SetOwnerComplate (GetName a c)) #
          SetOwner w c #
          (if is_AWeapon a w then [Assign_OwnChar w, UpdateAmmoToHud w] else []), s0)"
    by blast
  have pending: "th_SetOwnerWeapon t = Some CB_TestSetOwnerWeapon"
    by (simp add: t_def)
  have fire: "timer_fires TH_SetOwnerWeapon a t =
     Inr (AddOnScreenDebugMessage (Msg_SetOwnerComplate (GetName a c)) #
          SetOwner w c #
          (if is_AWeapon a w then [Assign_OwnChar w, UpdateAmmoToHud w] else []), s0)"
    using b by (simp add: timer_fires_def run_callback_def pending released)
  have idle: "th_SetOwnerWeapon s0 = None"
    by (simp add: s0_def)
  show ?thesis
    using Cons c attempt retries fire
    by (simp add: run_each_append idle_run(2) [OF idle] replicate_app_Cons_same s0_def [symmetric])
qed

subsection \<open>One trigger request\<close>

lemma ReqPressTrigger_Implementation_events:
  "HasAuthority e \<Longrightarrow>
   ReqPressTrigger_Implementation e s =
     Inr ((case Cast_IWeaponInterface e (EquipWeapon s) of
             None \<Rightarrow> [Multicast RPC_ResPressTrigger]
           | Some w \<Rightarrow>
               if IsCanUse e w
               then [Execute_IsCanUse w, Multicast RPC_ResPressTrigger, Execute_PressTrigger w]
               else [Execute_IsCanUse w]), s)"
  by (simp add: ReqPressTrigger_Implementation_def ResPressTrigger_def
      ResPressTrigger_Implementation_def monad_defs split: option.splits)
subsection \<open>The guarded call sites\<close>

text \<open>
  The calls made through the weapon interface are behind a cast: with no item, or an
  item without the interface, the three operations below do nothing. With an item
  equipped \<open>TestSetOwnerWeapon\<close> cannot fail either, and \<open>TakeDamage\<close> with an instigator
  returns zero, leaves the character as it was and, beside the debug message, only
  passes the damage on to a shooting player state.
\<close>

lemma interface_call_sites_guarded:
  "OnNotifyShoot e s =
     Inr ((case Cast_IWeaponInterface e (EquipWeapon s) of
             None \<Rightarrow> [] | Some w \<Rightarrow> [Execute_NotifyShoot w]), s) \<and>
   ResPressTrigger_Implementation e s =
     Inr ((case Cast_IWeaponInterface e (EquipWeapon s) of
             None \<Rightarrow> [] | Some w \<Rightarrow> [Execute_PressTrigger w]), s) \<and>
   ResPressReload_Implementation e s =
     Inr ((case Cast_IWeaponInterface e (EquipWeapon s) of
             None \<Rightarrow> [] | Some w \<Rightarrow> [Execute_PressReload w]), s)"
  by (simp add: OnNotifyShoot_def ResPressTrigger_Implementation_def
      ResPressReload_Implementation_def monad_defs split: option.splits)

lemma TestSetOwnerWeapon_with_item:
  "EquipWeapon s = Some w \<Longrightarrow> \<exists>evs s'. TestSetOwnerWeapon e s = Inr (evs, s')"
  by (simp add: TestSetOwnerWeapon_def monad_defs cast_defs split: option.splits)

lemma TakeDamage_forwards_damage:
  "TakeDamage e DamageAmount (Some c) DamageCauser s =
     Inr (AddOnScreenDebugMessage (Msg_TakeDamage DamageAmount (GetName e c)) #
          (case Cast_AShootingPlayerState e (GetPlayerState e) of
             None \<Rightarrow> [] | Some ps \<Rightarrow> [AddDamage ps DamageAmount]),
          Finite 0, s)"
  by (simp add: TakeDamage_def monad_defs split: option.splits)

section \<open>The claims\<close>

text \<open>
  C1. Trigger requests handled on the authority, one per engine situation of \<open>es\<close>: every
  request is handled without error and leaves the character as it was. The response is
  broadcast for a request exactly when, at that moment, the cast of the equipped item to
  the weapon interface fails (no item, or an item without the interface) or the item
  answers that it can be used. A request whose item is present and answers that it
  cannot be used makes the query and nothing else: no response, no message and no timer.
\<close>

theorem Trigger_response_iff_usable_or_no_item:
  assumes "\<forall>e \<in> set es. HasAuthority e"
  shows "\<exists>evss. run_each ReqPressTrigger_Implementation es s = Inr (evss, s) \<and>
     length evss = length es \<and>
     (\<forall>i < length es.
        (Multicast RPC_ResPressTrigger \<in> set (evss ! i)) =
          (Cast_IWeaponInterface (es ! i) (EquipWeapon s) = None \<or>
           (\<exists>w. EquipWeapon s = Some w \<and> IsCanUse (es ! i) w)) \<and>
        (\<forall>w. Cast_IWeaponInterface (es ! i) (EquipWeapon s) = Some w \<and> \<not> IsCanUse (es ! i) w
           \<longrightarrow> evss ! i = [Execute_IsCanUse w]))"
proof -
  let ?g = "\<lambda>e. case Cast_IWeaponInterface e (EquipWeapon s) of
             None \<Rightarrow> [Multicast RPC_ResPressTrigger]
           | Some w \<Rightarrow>
               if IsCanUse e w
               then [Execute_IsCanUse w, Multicast RPC_ResPressTrigger, Execute_PressTrigger w]
               else [Execute_IsCanUse w]"
  have run: "run_each ReqPressTrigger_Implementation es s = Inr (map ?g es, s)"
    by (rule run_each_fixed) (use assms in \<open>simp add: ReqPressTrigger_Implementation_events\<close>)
  have "(Multicast RPC_ResPressTrigger \<in> set (?g e)) =
          (Cast_IWeaponInterface e (EquipWeapon s) = None \<or>
           (\<exists>w. EquipWeapon s = Some w \<and> IsCanUse e w))" for e
    by (auto simp: Cast_IWeaponInterface_def split: option.splits if_splits)
  moreover have "Cast_IWeaponInterface e (EquipWeapon s) = Some w \<and> \<not> IsCanUse e w
           \<longrightarrow> ?g e = [Execute_IsCanUse w]" for e w
    by simp
  ultimately show ?thesis
    unfolding run by simp
qed

theorem Trigger_response_iff_usable_or_no_item_witness:
  "HasAuthority server \<and> HasAuthority jammed \<and>
   run_each ReqPressTrigger_Implementation [server, jammed, server] armed =
     Inr ([[Execute_IsCanUse 3, Multicast RPC_ResPressTrigger, Execute_PressTrigger 3],
           [Execute_IsCanUse 3],
           [Execute_IsCanUse 3, Multicast RPC_ResPressTrigger, Execute_PressTrigger 3]], armed) \<and>
   run_each ReqPressTrigger_Implementation [jammed] AShootingGameCharacter =
     Inr ([[Multicast RPC_ResPressTrigger]], AShootingGameCharacter)"
proof -
  have auth: "\<forall>e \<in> set [server, jammed, server]. HasAuthority e"
    by (simp add: situation_defs)
  from Trigger_response_iff_usable_or_no_item [OF auth, of armed]
  show ?thesis
    by (simp add: ReqPressTrigger_Implementation_events situation_defs Cast_IWeaponInterface_def)
qed

text \<open>
  C2, as stated, fails: the flag does not change through the ToggleRagdoll action only.
  A notification of the hit points with nothing left sets the flag of a standing
  character, and the notification is not a ToggleRagdoll operation.
\<close>

theorem OnUpdateHp_sets_IsRagdoll_counterexample:
  "OnUpdateHp_Implementation (Finite 0) (Finite 100) AShootingGameCharacter =
     Inr ([AddOnScreenDebugMessage (Msg_OnUpdateHp (Finite 0)), SetSimulatePhysics True],
          AShootingGameCharacter\<lparr>IsRagdoll := True\<rparr>) \<and>
   IsRagdoll AShootingGameCharacter = False \<and>
   is_ToggleRagdoll (Call_OnUpdateHp (Finite 0) (Finite 100)) = False"
  by (simp add: OnUpdateHp_Implementation_def DoRagdoll_def monad_defs AShootingGameCharacter_def)

text \<open>
  C2, amended. Whenever an operation of the character changes the ragdoll flag, the
  change is made by \<open>DoRagdoll\<close> or \<open>DoGetup\<close>: the mesh is told the matching physics
  setting in the same operation. The operation is a ToggleRagdoll operation, or a direct
  call of \<open>DoRagdoll\<close> or \<open>DoGetup\<close>, or it sets the flag and is one of these: the
  notification \<open>OnUpdateHp\<close> with hit points at or below zero, or \<open>BeginPlay\<close>,
  \<open>BindPlayerState\<close> or a firing timer that binds to a player state whose current hit
  points are at or below zero. No other operation changes the flag.
\<close>

theorem IsRagdoll_changes_only_in_DoRagdoll_DoGetup:
  assumes "exec op e s = Inr (evs, s')" and "IsRagdoll s' \<noteq> IsRagdoll s"
  shows "SetSimulatePhysics (IsRagdoll s') \<in> set evs \<and>
     (is_ToggleRagdoll op \<or> op = Call_DoRagdoll \<or> op = Call_DoGetup \<or>
      (IsRagdoll s' \<and>
       ((\<exists>CurrentHp MaxHp. op = Call_OnUpdateHp CurrentHp MaxHp \<and>
           float_le CurrentHp (Finite 0)) \<or>
        ((op = Call_BeginPlay \<or> op = Call_BindPlayerState \<or> (\<exists>h. op = Timer_fires h)) \<and>
         (\<exists>p. Cast_AShootingPlayerState e (GetPlayerState e) = Some p \<and>
              float_le (GetCurHp e p) (Finite 0))))))"
proof (cases op)
  case (Timer_fires h)
  with assms timer_fires_frame [of h e s evs s'] show ?thesis by auto
next
  case Call_BeginPlay
  with assms show ?thesis
    using BindPlayerState_frame [of e s _ s']
    by (auto simp: BeginPlay_def monad_defs split: sum.splits prod.splits)
next
  case Call_BindPlayerState
  with assms BindPlayerState_frame [of e s evs s'] show ?thesis by auto
next
  case Call_TestSetOwnerWeapon
  with assms TestSetOwnerWeapon_frame [of e s evs s'] show ?thesis by auto
next
  case (Call_SetEquipWeapon w)
  with assms show ?thesis
    using TestSetOwnerWeapon_frame [of e "s\<lparr>EquipWeapon := w\<rparr>" _ s']
    by (auto simp: SetEquipWeapon_def drop_value_def monad_defs split: sum.splits prod.splits)
qed (use assms in \<open>auto simp: op_defs monad_defs cast_defs
       split: if_splits option.splits sum.splits prod.splits\<close>)

theorem IsRagdoll_changes_only_in_DoRagdoll_DoGetup_witness:
  "exec Call_BeginPlay defeated AShootingGameCharacter =
     Inr ([Super_BeginPlay, AddUFunction 2 ''OnUpdateHp'',
           AddOnScreenDebugMessage (Msg_OnUpdateHp (Finite 0)), SetSimulatePhysics True],
          AShootingGameCharacter\<lparr>IsRagdoll := True\<rparr>) \<and>
   IsRagdoll (AShootingGameCharacter\<lparr>IsRagdoll := True\<rparr>) \<noteq> IsRagdoll AShootingGameCharacter \<and>
   SetSimulatePhysics True \<in>
     set [Super_BeginPlay, AddUFunction 2 ''OnUpdateHp'',
          AddOnScreenDebugMessage (Msg_OnUpdateHp (Finite 0)), SetSimulatePhysics True] \<and>
   is_ToggleRagdoll Call_BeginPlay = False \<and>
   Cast_AShootingPlayerState defeated (GetPlayerState defeated) = Some 2 \<and>
   float_le (GetCurHp defeated 2) (Finite 0)"
proof -
  have run: "exec Call_BeginPlay defeated AShootingGameCharacter =
     Inr ([Super_BeginPlay, AddUFunction 2 ''OnUpdateHp'',
           AddOnScreenDebugMessage (Msg_OnUpdateHp (Finite 0)), SetSimulatePhysics True],
          AShootingGameCharacter\<lparr>IsRagdoll := True\<rparr>)"
    by (simp add: BeginPlay_def BindPlayerState_def OnUpdateHp_def OnUpdateHp_Implementation_def
        DoRagdoll_def monad_defs cast_defs situation_defs)
  have changed:
    "IsRagdoll (AShootingGameCharacter\<lparr>IsRagdoll := True\<rparr>) \<noteq> IsRagdoll AShootingGameCharacter"
    by (simp add: AShootingGameCharacter_def)
  have state: "Cast_AShootingPlayerState defeated (GetPlayerState defeated) = Some 2"
    and hp: "float_le (GetCurHp defeated 2) (Finite 0)"
    by (simp_all add: cast_defs situation_defs)
  from IsRagdoll_changes_only_in_DoRagdoll_DoGetup [OF run changed] run changed state hp
  show ?thesis by simp
qed

text \<open>
  C3. The claim says that every call into the equipped item is guarded and that no
  operation dereferences a null item. \<open>TestSetOwnerWeapon\<close> calls \<open>SetOwner\<close> on the
  item once the controller is valid without looking at the item: equipping the null
  item on a possessed character, directly or when the retry timer fires, dereferences
  null.
\<close>

theorem SetEquipWeapon_null_item_dereferenced:
  "IsValid server (GetController server) \<and>
   SetEquipWeapon server None AShootingGameCharacter = Inl NullDereference \<and>
   exec (Timer_fires TH_SetOwnerWeapon) server
     (AShootingGameCharacter\<lparr>th_SetOwnerWeapon := Some CB_TestSetOwnerWeapon\<rparr>) =
     Inl NullDereference"
  by (simp add: SetEquipWeapon_def TestSetOwnerWeapon_def timer_fires_def run_callback_def
      server_def cast_defs monad_defs AShootingGameCharacter_def)

text \<open>
  C4. Two ToggleRagdoll responses in a row: the first inverts the ragdoll flag and the
  second restores the value it had.
\<close>

theorem ResPressC_twice_restores_IsRagdoll:
  "\<exists>evs1 s1 evs2 s2.
     ResPressC_Implementation s = Inr (evs1, s1) \<and>
     ResPressC_Implementation s1 = Inr (evs2, s2) \<and>
     IsRagdoll s1 = (\<not> IsRagdoll s) \<and> IsRagdoll s2 = IsRagdoll s"
  by (simp add: ResPressC_Implementation_def DoRagdoll_def DoGetup_def monad_defs)

text \<open>
  C5. A ToggleRagdoll response on a ragdolled character clears the flag, switches the
  physics simulation of the mesh off, attaches the mesh to the root component and puts it
  at the relative location (0, 0, -97) with the rotation of yaw 270, in this order. On a
  character that is not ragdolled it sets the flag and switches the simulation on.
\<close>

theorem ResPressC_Implementation_effect:
  "ResPressC_Implementation s =
     (if IsRagdoll s
      then Inr ([SetSimulatePhysics False,
                 AttachToComponent_Root_KeepRelativeTransform,
                 SetRelativeLocationAndRotation
                   \<lparr>X = Finite 0, Y = Finite 0, Z = Finite (- 97)\<rparr>
                   \<lparr>Pitch = Finite 0, Yaw = Finite 270, Roll = Finite 0\<rparr>],
                s\<lparr>IsRagdoll := False\<rparr>)
      else Inr ([SetSimulatePhysics True], s\<lparr>IsRagdoll := True\<rparr>))"
  by (simp add: ResPressC_Implementation_def DoRagdoll_def DoGetup_def monad_defs)

text \<open>
  C6. With an item that has the weapon interface equipped when the response is handled,
  a Trigger response makes exactly one call, the trigger call on that item, and a Reload
  response exactly one call, the reload call on that item. The handlers read the item
  from the character at that moment; the witness re-equips between the request and the
  response, and the call goes to the new item.
\<close>

theorem response_calls_item_equipped_at_handling:
  assumes "Cast_IWeaponInterface e (EquipWeapon s) = Some w"
  shows "ResPressTrigger_Implementation e s = Inr ([Execute_PressTrigger w], s) \<and>
         ResPressReload_Implementation e s = Inr ([Execute_PressReload w], s)"
  using assms
  by (simp add: ResPressTrigger_Implementation_def ResPressReload_Implementation_def monad_defs)

theorem response_calls_item_equipped_at_handling_witness:
  "EquipWeapon disarmed = Some 4 \<and>
   SetEquipWeapon nobody_home (Some 3) disarmed =
     Inr ([SetTimer TH_SetOwnerWeapon CB_TestSetOwnerWeapon retry_delay False], Some 3,
          armed\<lparr>th_SetOwnerWeapon := Some CB_TestSetOwnerWeapon\<rparr>) \<and>
   ResPressTrigger_Implementation server (armed\<lparr>th_SetOwnerWeapon := Some CB_TestSetOwnerWeapon\<rparr>) =
     Inr ([Execute_PressTrigger 3], armed\<lparr>th_SetOwnerWeapon := Some CB_TestSetOwnerWeapon\<rparr>) \<and>
   ResPressReload_Implementation server (armed\<lparr>th_SetOwnerWeapon := Some CB_TestSetOwnerWeapon\<rparr>) =
     Inr ([Execute_PressReload 3], armed\<lparr>th_SetOwnerWeapon := Some CB_TestSetOwnerWeapon\<rparr>)"
proof -
  have item: "Cast_IWeaponInterface server
      (EquipWeapon (armed\<lparr>th_SetOwnerWeapon := Some CB_TestSetOwnerWeapon\<rparr>)) = Some 3"
    by (simp add: Cast_IWeaponInterface_def situation_defs)
  have reequip: "SetEquipWeapon nobody_home (Some 3) disarmed =
     Inr ([SetTimer TH_SetOwnerWeapon CB_TestSetOwnerWeapon retry_delay False], Some 3,
          armed\<lparr>th_SetOwnerWeapon := Some CB_TestSetOwnerWeapon\<rparr>)"
    by (simp add: SetEquipWeapon_def TestSetOwnerWeapon_def monad_defs cast_defs situation_defs)
  have "EquipWeapon disarmed = Some 4"
    by (simp add: situation_defs)
  with response_calls_item_equipped_at_handling [OF item] reequip show ?thesis
    by simp
qed

text \<open>
  C7. The claim says that for every damage amount and instigator \<open>TakeDamage\<close> returns
  0.0 and forwards the damage. With an instigator it does: 25.0 of damage reach the
  player state and 0.0 is returned. With the null instigator the debug message
  dereferences it and the call ends there.
\<close>

theorem TakeDamage_null_instigator_dereferenced:
  "TakeDamage server (Finite 25) None None AShootingGameCharacter = Inl NullDereference \<and>
   TakeDamage server (Finite 25) (Some 1) None AShootingGameCharacter =
     Inr ([AddOnScreenDebugMessage (Msg_TakeDamage (Finite 25) ''PlayerController_0''),
           AddDamage 2 (Finite 25)],
          Finite 0, AShootingGameCharacter)"
  by (simp add: TakeDamage_def monad_defs cast_defs situation_defs)

text \<open>
  C8. Control Pitch changes only in \<open>Tick\<close> on the authority, where it becomes the pitch
  of the control rotation: an operation that changes it is a \<open>Tick\<close>, runs with
  authority and leaves exactly that pitch. \<open>Tick\<close> without authority leaves the
  character as it was.
\<close>

theorem ControlPitch_written_only_by_authority_Tick:
  "(exec op e s = Inr (evs, s') \<and> ControlPitch s' \<noteq> ControlPitch s \<longrightarrow>
      (\<exists>DeltaTime. op = Call_Tick DeltaTime) \<and> HasAuthority e \<and>
      ControlPitch s' = Pitch (GetControlRotation e)) \<and>
   Tick e dt s =
     Inr ([Super_Tick dt],
          if HasAuthority e then s\<lparr>ControlPitch := Pitch (GetControlRotation e)\<rparr> else s)"
proof (intro conjI impI)
  show "Tick e dt s =
     Inr ([Super_Tick dt],
          if HasAuthority e then s\<lparr>ControlPitch := Pitch (GetControlRotation e)\<rparr> else s)"
    by (simp add: Tick_def monad_defs)
next
  assume a: "exec op e s = Inr (evs, s') \<and> ControlPitch s' \<noteq> ControlPitch s"
  then have run: "exec op e s = Inr (evs, s')" and ch: "ControlPitch s' \<noteq> ControlPitch s"
    by simp_all
  have "(\<exists>DeltaTime. op = Call_Tick DeltaTime) \<and> HasAuthority e \<and>
      ControlPitch s' = Pitch (GetControlRotation e)"
  proof (cases op)
    case (Timer_fires h)
    with run ch timer_fires_frame [of h e s evs s'] show ?thesis by auto
  next
    case Call_BeginPlay
    with run ch show ?thesis
      using BindPlayerState_frame [of e s _ s']
      by (auto simp: BeginPlay_def monad_defs split: sum.splits prod.splits)
  next
    case Call_BindPlayerState
    with run ch BindPlayerState_frame [of e s evs s'] show ?thesis by auto
  next
    case Call_TestSetOwnerWeapon
    with run ch TestSetOwnerWeapon_frame [of e s evs s'] show ?thesis by auto
  next
    case (Call_SetEquipWeapon w)
    with run ch show ?thesis
      using TestSetOwnerWeapon_frame [of e "s\<lparr>EquipWeapon := w\<rparr>" _ s']
      by (auto simp: SetEquipWeapon_def drop_value_def monad_defs split: sum.splits prod.splits)
  qed (use run ch in \<open>auto simp: op_defs monad_defs cast_defs
         split: if_splits option.splits sum.splits prod.splits\<close>)
  then show "\<exists>DeltaTime. op = Call_Tick DeltaTime" and "HasAuthority e"
    and "ControlPitch s' = Pitch (GetControlRotation e)"
    by simp_all
qed

theorem ControlPitch_written_only_by_authority_Tick_witness:
  "exec (Call_Tick (Finite (1 / 64))) server AShootingGameCharacter =
     Inr ([Super_Tick (Finite (1 / 64))], AShootingGameCharacter\<lparr>ControlPitch := Finite 30\<rparr>) \<and>
   ControlPitch (AShootingGameCharacter\<lparr>ControlPitch := Finite 30\<rparr>) \<noteq>
     ControlPitch AShootingGameCharacter \<and>
   HasAuthority server \<and> Pitch (GetControlRotation server) = Finite 30 \<and>
   Tick client (Finite (1 / 64)) AShootingGameCharacter =
     Inr ([Super_Tick (Finite (1 / 64))], AShootingGameCharacter)"
  using ControlPitch_written_only_by_authority_Tick
    [of "Call_Tick (Finite (1 / 64))" server AShootingGameCharacter
        "[Super_Tick (Finite (1 / 64))]" "AShootingGameCharacter\<lparr>ControlPitch := Finite 30\<rparr>"
        "Finite (1 / 64)"]
    ControlPitch_written_only_by_authority_Tick
    [of "Call_Tick (Finite (1 / 64))" client AShootingGameCharacter
        "[Super_Tick (Finite (1 / 64))]" AShootingGameCharacter "Finite (1 / 64)"]
  by (simp add: situation_defs)

text \<open>
  C9, as stated, fails for the owner of the weapon. The character never cancels a retry:
  one left pending by an earlier \<open>SetEquipWeapon\<close> is still pending when a second
  \<open>SetEquipWeapon\<close> finds the controller at once, so the binding is performed at the
  first attempt and again when the old retry fires. And with no item equipped the check
  that finds the controller dereferences the null item instead of binding.
\<close>

theorem stale_retry_binds_twice_counterexample:
  "SetEquipWeapon nobody_home (Some 3) AShootingGameCharacter =
     Inr ([SetTimer TH_SetOwnerWeapon CB_TestSetOwnerWeapon retry_delay False], Some 3,
          armed\<lparr>th_SetOwnerWeapon := Some CB_TestSetOwnerWeapon\<rparr>) \<and>
   controller_available server \<and>
   deferred_binding TestSetOwnerWeapon TH_SetOwnerWeapon [server, server]
     (armed\<lparr>th_SetOwnerWeapon := Some CB_TestSetOwnerWeapon\<rparr>) =
     Inr ([[AddOnScreenDebugMessage (Msg_SetOwnerComplate ''PlayerController_0''),
            SetOwner 3 1, Assign_OwnChar 3, UpdateAmmoToHud 3],
           [AddOnScreenDebugMessage (Msg_SetOwnerComplate ''PlayerController_0''),
            SetOwner 3 1, Assign_OwnChar 3, UpdateAmmoToHud 3]], armed) \<and>
   controller_available nobody_home = False \<and>
   deferred_binding TestSetOwnerWeapon TH_SetOwnerWeapon [nobody_home, server]
     AShootingGameCharacter = Inl NullDereference"
  by (simp add: SetEquipWeapon_def TestSetOwnerWeapon_def timer_fires_def run_callback_def
      controller_available_def monad_defs cast_defs situation_defs)

text \<open>
  C9, amended. A deferred binding is started by its first attempt, \<open>BindPlayerState\<close> or
  \<open>TestSetOwnerWeapon\<close> with an item equipped. The target is missing at the first \<open>N\<close>
  checks (the first attempt and \<open>N - 1\<close> firings of the timer) and there at the next one,
  after \<open>N\<close> retry intervals; when \<open>N\<close> is zero, no retry of an earlier attempt is pending
  on the handle. Then each of the \<open>N\<close> checks sets the timer once and does nothing else;
  the check after them performs the binding once and sets no timer; every later firing
  of the timer service finds nothing pending and does nothing, and the handle is left
  free. The two bindings are independent: each has its own character, situations and
  number of checks.
\<close>

theorem deferred_binding_binds_once_at_Nth_check:
  assumes "us = [] \<longrightarrow> th_BindPlayerState s = None"
    and "\<forall>e \<in> set us. \<not> player_state_available e"
    and "player_state_available a"
    and "vs = [] \<longrightarrow> th_SetOwnerWeapon t = None"
    and "EquipWeapon t = Some w"
    and "\<forall>e \<in> set vs. \<not> controller_available e"
    and "controller_available b"
  shows "(\<exists>p. Cast_AShootingPlayerState a (GetPlayerState a) = Some p \<and>
       deferred_binding BindPlayerState TH_BindPlayerState (us @ a # later) s =
       Inr (replicate (length us)
              [SetTimer TH_BindPlayerState CB_BindPlayerState retry_delay False] @
            [AddUFunction p ''OnUpdateHp'' #
             AddOnScreenDebugMessage (Msg_OnUpdateHp (GetCurHp a p)) #
             (if float_le (GetCurHp a p) (Finite 0) then [SetSimulatePhysics True] else [])] @
            replicate (length later) [],
            s\<lparr>IsRagdoll := (if float_le (GetCurHp a p) (Finite 0) then True else IsRagdoll s),
              th_BindPlayerState := None\<rparr>)) \<and>
     (\<exists>c. GetController b = Some c \<and>
       deferred_binding TestSetOwnerWeapon TH_SetOwnerWeapon (vs @ b # later') t =
       Inr (replicate (length vs)
              [SetTimer TH_SetOwnerWeapon CB_TestSetOwnerWeapon retry_delay False] @
            [AddOnScreenDebugMessage (Msg_SetOwnerComplate (GetName b c)) #
             SetOwner w c #
             (if is_AWeapon b w then [Assign_OwnChar w, UpdateAmmoToHud w] else [])] @
            replicate (length later') [],
            t\<lparr>th_SetOwnerWeapon := None\<rparr>))"
  using deferred_BindPlayerState [OF assms(1-3), of later]
    deferred_TestSetOwnerWeapon [OF assms(4-7), of later']
  by simp

theorem deferred_binding_binds_once_at_Nth_check_witness:
  "th_BindPlayerState AShootingGameCharacter = None \<and>
   EquipWeapon AShootingGameCharacter = None \<and>
   th_SetOwnerWeapon (armed\<lparr>th_SetOwnerWeapon := Some CB_TestSetOwnerWeapon\<rparr>) =
     Some CB_TestSetOwnerWeapon \<and>
   EquipWeapon (armed\<lparr>th_SetOwnerWeapon := Some CB_TestSetOwnerWeapon\<rparr>) = Some 3 \<and>
   player_state_available nobody_home = False \<and> player_state_available server \<and>
   controller_available nobody_home = False \<and> controller_available server \<and>
   deferred_binding BindPlayerState TH_BindPlayerState
     [nobody_home, nobody_home, server, server] AShootingGameCharacter =
     Inr ([[SetTimer TH_BindPlayerState CB_BindPlayerState retry_delay False],
           [SetTimer TH_BindPlayerState CB_BindPlayerState retry_delay False],
           [AddUFunction 2 ''OnUpdateHp'', AddOnScreenDebugMessage (Msg_OnUpdateHp (Finite 100))],
           []], AShootingGameCharacter) \<and>
   deferred_binding TestSetOwnerWeapon TH_SetOwnerWeapon
     [nobody_home, server, nobody_home]
     (armed\<lparr>th_SetOwnerWeapon := Some CB_TestSetOwnerWeapon\<rparr>) =
     Inr ([[SetTimer TH_SetOwnerWeapon CB_TestSetOwnerWeapon retry_delay False],
           [AddOnScreenDebugMessage (Msg_SetOwnerComplate ''PlayerController_0''),
            SetOwner 3 1, Assign_OwnChar 3, UpdateAmmoToHud 3],
           []], armed)"
proof -
  let ?s = "AShootingGameCharacter"
  let ?sw = "armed\<lparr>th_SetOwnerWeapon := Some CB_TestSetOwnerWeapon\<rparr>"
  have f1: "th_BindPlayerState ?s = None" and f2: "EquipWeapon ?s = None"
    and f3: "th_SetOwnerWeapon ?sw = Some CB_TestSetOwnerWeapon"
    and h5: "EquipWeapon ?sw = Some 3"
    by (simp_all add: situation_defs)
  have h1: "[nobody_home, nobody_home] = [] \<longrightarrow> th_BindPlayerState ?s = None"
    and h4: "[nobody_home] = [] \<longrightarrow> th_SetOwnerWeapon ?sw = None"
    by simp_all
  have n1: "\<not> player_state_available nobody_home" and n2: "\<not> controller_available nobody_home"
    by (simp_all add: player_state_available_def controller_available_def cast_defs situation_defs)
  have h3: "player_state_available server" and h7: "controller_available server"
    by (simp_all add: player_state_available_def controller_available_def cast_defs situation_defs)
  have h2: "\<forall>e \<in> set [nobody_home, nobody_home]. \<not> player_state_available e"
    and h6: "\<forall>e \<in> set [nobody_home]. \<not> controller_available e"
    using n1 n2 by simp_all
  have p: "Cast_AShootingPlayerState server (GetPlayerState server) = Some 2"
    and c: "GetController server = Some 1"
    and hp: "GetCurHp server 2 = Finite 100" and w: "is_AWeapon server 3"
    and nm: "GetName server 1 = ''PlayerController_0''"
    by (simp_all add: cast_defs situation_defs)
  from deferred_binding_binds_once_at_Nth_check
    [OF h1 h2 h3 h4 h5 h6 h7, of "[server]" "[nobody_home]"]
  obtain p' c' where
    p': "Cast_AShootingPlayerState server (GetPlayerState server) = Some p'" and
    run_ps: "deferred_binding BindPlayerState TH_BindPlayerState
       ([nobody_home, nobody_home] @ server # [server]) ?s =
       Inr (replicate (length [nobody_home, nobody_home])
              [SetTimer TH_BindPlayerState CB_BindPlayerState retry_delay False] @
            [AddUFunction p' ''OnUpdateHp'' #
             AddOnScreenDebugMessage (Msg_OnUpdateHp (GetCurHp server p')) #
             (if float_le (GetCurHp server p') (Finite 0) then [SetSimulatePhysics True] else [])] @
            replicate (length [server]) [],
            ?s\<lparr>IsRagdoll :=
              (if float_le (GetCurHp server p') (Finite 0) then True else IsRagdoll ?s),
              th_BindPlayerState := None\<rparr>)" and
    c': "GetController server = Some c'" and
    run_w: "deferred_binding TestSetOwnerWeapon TH_SetOwnerWeapon
       ([nobody_home] @ server # [nobody_home]) ?sw =
       Inr (replicate (length [nobody_home])
              [SetTimer TH_SetOwnerWeapon CB_TestSetOwnerWeapon retry_delay False] @
            [AddOnScreenDebugMessage (Msg_SetOwnerComplate (GetName server c')) #
             SetOwner 3 c' #
             (if is_AWeapon server 3 then [Assign_OwnChar 3, UpdateAmmoToHud 3] else [])] @
            replicate (length [nobody_home]) [],
            ?sw\<lparr>th_SetOwnerWeapon := None\<rparr>)"
    by blast
  from p p' have p2: "p' = 2" by simp
  from c c' have c1: "c' = 1" by simp
  have still: "?s\<lparr>th_BindPlayerState := None\<rparr> = ?s"
    by (simp add: situation_defs)
  have freed: "?sw\<lparr>th_SetOwnerWeapon := None\<rparr> = armed"
    by (simp add: situation_defs)
  have twice: "replicate (length [nobody_home, nobody_home])
      [SetTimer TH_BindPlayerState CB_BindPlayerState retry_delay False] =
      [[SetTimer TH_BindPlayerState CB_BindPlayerState retry_delay False],
       [SetTimer TH_BindPlayerState CB_BindPlayerState retry_delay False]]"
    by (simp add: numeral_2_eq_2)
  have "deferred_binding BindPlayerState TH_BindPlayerState
     [nobody_home, nobody_home, server, server] ?s =
     Inr ([[SetTimer TH_BindPlayerState CB_BindPlayerState retry_delay False],
           [SetTimer TH_BindPlayerState CB_BindPlayerState retry_delay False],
           [AddUFunction 2 ''OnUpdateHp'', AddOnScreenDebugMessage (Msg_OnUpdateHp (Finite 100))],
           []], ?s)"
    using run_ps unfolding p2 hp twice by (simp add: still)
  moreover have "deferred_binding TestSetOwnerWeapon TH_SetOwnerWeapon
     [nobody_home, server, nobody_home] ?sw =
     Inr ([[SetTimer TH_SetOwnerWeapon CB_TestSetOwnerWeapon retry_delay False],
           [AddOnScreenDebugMessage (Msg_SetOwnerComplate ''PlayerController_0''),
            SetOwner 3 1, Assign_OwnChar 3, UpdateAmmoToHud 3],
           []], armed)"
    using run_w w unfolding c1 nm freed by simp
  ultimately show ?thesis
    using f1 f2 f3 h5 n1 n2 h3 h7 by simp
qed

text \<open>
  C10. \<open>TakeDamage\<close> dereferences its instigator before any guard: with the null
  instigator every call ends in the null dereference, and with an instigator no call
  does; it returns 0.0 and the character as it was.
\<close>

theorem TakeDamage_requires_instigator:
  "TakeDamage e DamageAmount None DamageCauser s = Inl NullDereference \<and>
   (\<forall>c. \<exists>evs. TakeDamage e DamageAmount (Some c) DamageCauser s = Inr (evs, Finite 0, s))"
  by (simp add: TakeDamage_def monad_defs split: option.splits)

end
